theory Spec2Isabelle
  imports Complex_Main "HOL-Library.Sublist"
begin

section \<open>JavaScript strings and values\<close>

text \<open>
  Strings are modelled as \<open>string\<close> (lists of 8-bit characters), which is exact for the
  ASCII texts the program compares against (resource types, reasons, indicator words).
  \<open>s.includes(t)\<close> is the contiguous-substring test, \<open>s.startsWith(t)\<close> the prefix test
  and \<open>s.toLowerCase()\<close> maps the letters \<open>A\<close>..\<open>Z\<close> to \<open>a\<close>..\<open>z\<close>.
\<close>

definition includes_str :: "string \<Rightarrow> string \<Rightarrow> bool" where
  "includes_str s t = sublist t s"

definition startsWith :: "string \<Rightarrow> string \<Rightarrow> bool" where
  "startsWith s t = prefix t s"

definition lowerChar :: "char \<Rightarrow> char" where
  "lowerChar c =
     (let n = (of_char c :: nat) in if 65 \<le> n \<and> n \<le> 90 then char_of (n + 32) else c)"

definition toLowerCase :: "string \<Rightarrow> string" where
  "toLowerCase s = map lowerChar s"

text \<open>
  A thrown value is represented by its \<open>message\<close> property: \<open>Some m\<close> for an \<open>Error\<close>
  whose message is the string \<open>m\<close>, \<open>None\<close> for a thrown value without a message.
\<close>

type_synonym thrown = "string option"

section \<open>RequestFilter: \<open>shouldBlockRequest\<close> (browse-optimized.mjs)\<close>

record request =
  req_method :: string
  req_resourceType :: string
  req_url :: string
  req_headers :: "(string \<times> string) list"

record decision =
  block :: bool
  reason :: string

definition shouldBlockRequest :: "request \<Rightarrow> string list \<Rightarrow> string list \<Rightarrow> decision" where
  "shouldBlockRequest rq allowTypes blockUrls =
     (let url = req_url rq; resourceType = req_resourceType rq in
      if list_ex (\<lambda>blockedUrl. includes_str url blockedUrl) blockUrls
        then \<lparr>block = True, reason = ''blocked_url''\<rparr>
      else if resourceType = ''image'' \<and> startsWith url ''data:image/''
        then \<lparr>block = True, reason = ''data_uri_image''\<rparr>
      else if resourceType = ''font''
        then \<lparr>block = True, reason = ''font_blocked''\<rparr>
      else if resourceType = ''document''
        then \<lparr>block = False, reason = ''document_allowed''\<rparr>
      else if length allowTypes > 0 \<and> \<not> List.member allowTypes resourceType
        then \<lparr>block = True, reason = ''not_in_allow_list''\<rparr>
      else \<lparr>block = False, reason = ''allowed''\<rparr>)"

section \<open>BrowserPool (browser-pool.mjs)\<close>

text \<open>
  A browser instance is an opaque handle. The array \<open>browsers\<close> is a JavaScript array: an
  element is an instance or \<open>undefined\<close> (\<open>None\<close>, a hole), reading by \<open>NaN\<close> or past the end
  gives \<open>undefined\<close>, and writing past the end extends the array with holes.
  \<open>currentIndex\<close> is a JavaScript number: the remainder by the length of an empty array
  is \<open>NaN\<close>.
\<close>

type_synonym browser = nat

datatype jsnum = Num nat | NaN

record pool =
  browsers :: "browser option list"
  maxBrowsers :: nat
  currentIndex :: jsnum

definition newBrowserPool :: "nat \<Rightarrow> pool" where
  "newBrowserPool maxB = \<lparr>browsers = [], maxBrowsers = maxB, currentIndex = Num 0\<rparr>"

definition browserPool :: pool where
  "browserPool = newBrowserPool 3"

text \<open>
  What the automation engine does during one call of \<open>getBrowser\<close>: the answer of
  \<open>isConnected()\<close> for each instance, the outcome of \<open>puppeteer.launch\<close> (an instance, or
  the value it rejects with) and whether \<open>close()\<close> of an instance rejects.
\<close>

record engine =
  isConnected :: "browser \<Rightarrow> bool"
  launch :: "thrown + browser"
  close_rejects :: "browser \<Rightarrow> bool"

text \<open>The result of \<open>getBrowser\<close>: the instance returned (or the value thrown), the pool
  afterwards, and the instances on which \<open>close()\<close> was called.\<close>

record acquired =
  got :: "thrown + browser"
  pool_after :: pool
  closed :: "browser list"

definition createBrowser :: "engine \<Rightarrow> thrown + browser" where
  "createBrowser eng = launch eng"

definition index_read :: "'a option list \<Rightarrow> jsnum \<Rightarrow> 'a option" where
  "index_read xs i = (case i of NaN \<Rightarrow> None | Num k \<Rightarrow> if k < length xs then xs ! k else None)"

definition index_write :: "'a option list \<Rightarrow> jsnum \<Rightarrow> 'a \<Rightarrow> 'a option list" where
  "index_write xs i v =
     (case i of
        NaN \<Rightarrow> xs
      | Num k \<Rightarrow> if k < length xs then xs[k := Some v]
                 else xs @ replicate (k - length xs) None @ [Some v])"

definition next_index :: "jsnum \<Rightarrow> nat \<Rightarrow> jsnum" where
  "next_index i n = (case i of NaN \<Rightarrow> NaN | Num k \<Rightarrow> if n = 0 then NaN else Num ((k + 1) mod n))"

definition undefined_isConnected :: thrown where
  "undefined_isConnected =
     Some (''Cannot read properties of undefined (reading '' @ [CHR 0x27] @ ''isConnected''
           @ [CHR 0x27] @ '')'')"

text \<open>
  \<open>getBrowser(proxyConfig)\<close>; the first argument says whether \<open>proxyConfig\<close> is non-null.
  \<open>browser.close().catch(() => {})\<close> swallows a rejection, so \<open>close_rejects\<close> is not
  consulted.
\<close>

definition getBrowser :: "bool \<Rightarrow> engine \<Rightarrow> pool \<Rightarrow> acquired" where
  "getBrowser proxied eng p =
     (if proxied then \<lparr>got = createBrowser eng, pool_after = p, closed = []\<rparr>
      else if length (browsers p) < maxBrowsers p then
        (case createBrowser eng of
           Inl e \<Rightarrow> \<lparr>got = Inl e, pool_after = p, closed = []\<rparr>
         | Inr b \<Rightarrow>
             \<lparr>got = Inr b, pool_after = p\<lparr>browsers := browsers p @ [Some b]\<rparr>, closed = []\<rparr>)
      else
        (let browser = index_read (browsers p) (currentIndex p);
             p1 = p\<lparr>currentIndex := next_index (currentIndex p) (length (browsers p))\<rparr>
         in case browser of
              None \<Rightarrow> \<lparr>got = Inl undefined_isConnected, pool_after = p1, closed = []\<rparr>
            | Some b \<Rightarrow>
                if \<not> isConnected eng b then
                  (case createBrowser eng of
                     Inl e \<Rightarrow> \<lparr>got = Inl e, pool_after = p1, closed = [b]\<rparr>
                   | Inr newBrowser \<Rightarrow>
                       \<lparr>got = Inr newBrowser,
                        pool_after =
                          p1\<lparr>browsers := index_write (browsers p1) (currentIndex p1) newBrowser\<rparr>,
                        closed = [b]\<rparr>)
                else \<lparr>got = Inr b, pool_after = p1, closed = []\<rparr>))"

text \<open>A sequence of \<open>getBrowser\<close> calls on the shared pool, each with the engine's behaviour
  at that call: the values returned, in order, and the pool at the end.\<close>

fun getBrowser_seq :: "(bool \<times> engine) list \<Rightarrow> pool \<Rightarrow> (thrown + browser) list \<times> pool" where
  "getBrowser_seq [] p = ([], p)"
| "getBrowser_seq ((proxied, eng) # cs) p =
     (let a = getBrowser proxied eng p;
          (rs, p') = getBrowser_seq cs (pool_after a)
      in (got a # rs, p'))"

subsection \<open>\<open>getBrowser\<close> between its awaits\<close>

text \<open>
  \<open>getBrowser\<close> is an \<open>async\<close> function: it runs without interruption up to an \<open>await\<close>, and
  other calls may run before it is resumed. A call is suspended at \<open>await
  this.createBrowser(proxyConfig)\<close> (line 148), at \<open>await this.createBrowser()\<close> before the
  \<open>push\<close> (line 152), at \<open>await browser.close()\<close> (line 164) or at \<open>await
  this.createBrowser()\<close> before the write (line 165), or it is settled with the value it
  returns or throws. \<open>getBrowser_begin\<close> runs a call up to its first \<open>await\<close>;
  \<open>getBrowser_resume\<close> runs a suspended call up to its next one, on the pool as it is when
  the call is resumed. Lemma \<open>getBrowser_alone\<close> shows that a call resumed at once, with no
  other call in between, is \<open>getBrowser\<close>.
\<close>

datatype suspended =
    AwaitProxied
  | AwaitCreate
  | AwaitClose browser
  | AwaitReplace
  | Settled "thrown + browser"

definition getBrowser_begin :: "bool \<Rightarrow> engine \<Rightarrow> pool \<Rightarrow> suspended \<times> pool" where
  "getBrowser_begin proxied eng p =
     (if proxied then (AwaitProxied, p)
      else if length (browsers p) < maxBrowsers p then (AwaitCreate, p)
      else
        (let browser = index_read (browsers p) (currentIndex p);
             p1 = p\<lparr>currentIndex := next_index (currentIndex p) (length (browsers p))\<rparr>
         in case browser of
              None \<Rightarrow> (Settled (Inl undefined_isConnected), p1)
            | Some b \<Rightarrow> if \<not> isConnected eng b then (AwaitClose b, p1) else (Settled (Inr b), p1)))"

definition getBrowser_resume :: "suspended \<Rightarrow> engine \<Rightarrow> pool \<Rightarrow> suspended \<times> pool" where
  "getBrowser_resume c eng p =
     (case c of
        AwaitProxied \<Rightarrow> (Settled (createBrowser eng), p)
      | AwaitCreate \<Rightarrow>
          (case createBrowser eng of
             Inl e \<Rightarrow> (Settled (Inl e), p)
           | Inr b \<Rightarrow> (Settled (Inr b), p\<lparr>browsers := browsers p @ [Some b]\<rparr>))
      | AwaitClose b \<Rightarrow> (AwaitReplace, p)
      | AwaitReplace \<Rightarrow>
          (case createBrowser eng of
             Inl e \<Rightarrow> (Settled (Inl e), p)
           | Inr newBrowser \<Rightarrow>
               (Settled (Inr newBrowser),
                p\<lparr>browsers := index_write (browsers p) (currentIndex p) newBrowser\<rparr>))
      | Settled r \<Rightarrow> (Settled r, p))"

text \<open>
  A server on which several calls are in flight: the pool and the calls started so far.
  An action starts a call or resumes the call started as the \<open>i\<close>-th one, with the engine's
  behaviour at that moment.
\<close>

datatype action = Call bool engine | Resume nat engine

record server =
  sv_pool :: pool
  sv_calls :: "suspended list"

definition act :: "action \<Rightarrow> server \<Rightarrow> server" where
  "act a s =
     (case a of
        Call proxied eng \<Rightarrow>
          (let (c, p) = getBrowser_begin proxied eng (sv_pool s)
           in \<lparr>sv_pool = p, sv_calls = sv_calls s @ [c]\<rparr>)
      | Resume i eng \<Rightarrow>
          if i < length (sv_calls s) then
            (let (c, p) = getBrowser_resume (sv_calls s ! i) eng (sv_pool s)
             in \<lparr>sv_pool = p, sv_calls = (sv_calls s)[i := c]\<rparr>)
          else s)"

fun run :: "action list \<Rightarrow> server \<Rightarrow> server" where
  "run [] s = s"
| "run (a # as) s = run as (act a s)"

section \<open>ProxyResolver: \<open>getProxyConfig\<close> (proxy-utils.mjs)\<close>

text \<open>
  The \<open>proxy\<close> object of a request: every property may be absent (\<open>None\<close>). A number
  property is an integer when present. \<open>process.env\<close> maps each variable to a string or
  to \<open>undefined\<close>.
\<close>

record request_proxy =
  rp_enabled :: "bool option"
  rp_type :: "string option"
  rp_host :: "string option"
  rp_port :: "int option"
  rp_username :: "string option"
  rp_password :: "string option"

record environment =
  PROXY_HOST :: "string option"
  PROXY_PORT :: "string option"
  PROXY_USERNAME :: "string option"
  PROXY_PASSWORD :: "string option"

text \<open>The port of a built configuration is a JavaScript number: \<open>None\<close> stands for \<open>NaN\<close>,
  which \<open>parseInt\<close> yields on a text without leading digits.\<close>

record proxy_config =
  pc_enabled :: bool
  pc_type :: string
  pc_host :: string
  pc_port :: "int option"
  pc_username :: "string option"
  pc_password :: "string option"

definition truthy_str :: "string option \<Rightarrow> bool" where
  "truthy_str v = (case v of None \<Rightarrow> False | Some s \<Rightarrow> s \<noteq> [])"

definition truthy_num :: "int option \<Rightarrow> bool" where
  "truthy_num v = (case v of None \<Rightarrow> False | Some n \<Rightarrow> n \<noteq> 0)"

text \<open>\<open>a || b\<close> on optional strings.\<close>

definition or_else :: "string option \<Rightarrow> string option \<Rightarrow> string option" where
  "or_else a b = (if truthy_str a then a else b)"

definition or_default :: "string option \<Rightarrow> string \<Rightarrow> string" where
  "or_default a d = (case a of None \<Rightarrow> d | Some s \<Rightarrow> if s = [] then d else s)"

definition isWhiteSpace :: "char \<Rightarrow> bool" where
  "isWhiteSpace c = (let n = (of_char c :: nat) in (9 \<le> n \<and> n \<le> 13) \<or> n = 32)"

definition isDigit :: "char \<Rightarrow> bool" where
  "isDigit c = (let n = (of_char c :: nat) in 48 \<le> n \<and> n \<le> 57)"

definition digitValue :: "char \<Rightarrow> int" where
  "digitValue c = int (of_char c) - 48"

text \<open>\<open>parseInt(s, 10)\<close>: leading white space is skipped, one sign is accepted, then the
  longest run of decimal digits is read; without a digit the result is \<open>NaN\<close>.\<close>

definition parseInt :: "string \<Rightarrow> int option" where
  "parseInt s =
     (let t = dropWhile isWhiteSpace s;
          neg = (t \<noteq> [] \<and> hd t = CHR ''-'');
          u = (if t \<noteq> [] \<and> (hd t = CHR ''-'' \<or> hd t = CHR ''+'') then tl t else t);
          ds = takeWhile isDigit u;
          v = foldl (\<lambda>a c. 10 * a + digitValue c) 0 ds
      in if ds = [] then None else Some (if neg then - v else v))"

definition empty_request_proxy :: request_proxy where
  "empty_request_proxy =
     \<lparr>rp_enabled = None, rp_type = None, rp_host = None, rp_port = None,
      rp_username = None, rp_password = None\<rparr>"

definition missing_message :: string where
  "missing_message =
     ''Proxy is enabled but host, port, username, or password are missing from both request and environment variables''"

definition required_message :: string where
  "required_message = ''Proxy host and port are required''"

text \<open>The three-way choice of \<open>getProxyConfig\<close> before validation: a configuration, \<open>null\<close>,
  or the error thrown.\<close>

definition buildProxyConfig :: "request_proxy \<Rightarrow> environment \<Rightarrow> string + proxy_config option" where
  "buildProxyConfig requestProxy env =
     (if rp_enabled requestProxy = Some True \<and> truthy_str (rp_host requestProxy)
         \<and> truthy_num (rp_port requestProxy)
      then Inr (Some \<lparr>pc_enabled = True,
                      pc_type = or_default (rp_type requestProxy) ''hybrid'',
                      pc_host = or_default (rp_host requestProxy) [],
                      pc_port = rp_port requestProxy,
                      pc_username = rp_username requestProxy,
                      pc_password = rp_password requestProxy\<rparr>)
      else if truthy_str (PROXY_HOST env) \<and> truthy_str (PROXY_PORT env)
      then Inr (Some \<lparr>pc_enabled = True,
                      pc_type = or_default (rp_type requestProxy) ''hybrid'',
                      pc_host = or_default (PROXY_HOST env) [],
                      pc_port = parseInt (or_default (PROXY_PORT env) []),
                      pc_username = or_else (rp_username requestProxy) (PROXY_USERNAME env),
                      pc_password = or_else (rp_password requestProxy) (PROXY_PASSWORD env)\<rparr>)
      else if rp_enabled requestProxy = Some True then Inl missing_message
      else Inr None)"

text \<open>\<open>getProxyConfig(requestProxy = {})\<close>: the argument is \<open>None\<close> when the caller passes
  \<open>undefined\<close>. The result is the configuration, \<open>null\<close>, or the message of the \<open>Error\<close>
  thrown.\<close>

definition getProxyConfig :: "request_proxy option \<Rightarrow> environment \<Rightarrow> string + proxy_config option" where
  "getProxyConfig arg env =
     (let requestProxy = (case arg of None \<Rightarrow> empty_request_proxy | Some r \<Rightarrow> r) in
      if rp_enabled requestProxy = Some False then Inr None
      else
        (case buildProxyConfig requestProxy env of
           Inl e \<Rightarrow> Inl e
         | Inr None \<Rightarrow> Inr None
         | Inr (Some proxyConfig) \<Rightarrow>
             if pc_host proxyConfig \<noteq> [] \<and> truthy_num (pc_port proxyConfig)
             then Inr (Some proxyConfig)
             else Inl required_message))"

definition createProxyErrorReason :: "string \<Rightarrow> string" where
  "createProxyErrorReason errorMessage =
     (if includes_str errorMessage ''PROXY_'' then ''proxy_authentication_failed''
      else if includes_str errorMessage ''timeout'' then ''proxy_timeout''
      else if includes_str errorMessage ''connection'' then ''proxy_connection_failed''
      else ''proxy_error'')"

section \<open>BlockDetector: \<open>isPageBlocked\<close> (proxy-utils.mjs)\<close>

record response =
  resp_status :: int
  resp_url :: string

definition blockingIndicators :: "string list" where
  "blockingIndicators =
     [''blocked'', ''access denied'', ''forbidden'', ''rate limit'', ''captcha'', ''cloudflare'',
      ''ddos protection'', ''security check'', ''bot detection'']"

text \<open>
  \<open>isPageBlocked(response, page)\<close>. The response is \<open>None\<close> when \<open>page.goto\<close> resolved to
  \<open>null\<close>; the other two arguments are the outcomes of \<open>page.title()\<close> and \<open>page.content()\<close>
  (\<open>Inl\<close> when the call rejects).
\<close>

definition isPageBlocked :: "response option \<Rightarrow> thrown + string \<Rightarrow> thrown + string \<Rightarrow> bool" where
  "isPageBlocked resp page_title page_content =
     (case resp of
        None \<Rightarrow> True
      | Some r \<Rightarrow>
          if resp_status r \<in> set [403, 429, 503] then True
          else
            (case page_title of
               Inl _ \<Rightarrow> True
             | Inr title \<Rightarrow>
                 (case page_content of
                    Inl _ \<Rightarrow> True
                  | Inr content \<Rightarrow>
                      (let titleLower = toLowerCase title; contentLower = toLowerCase content in
                       if list_ex (\<lambda>indicator. includes_str titleLower indicator
                                      \<or> includes_str contentLower indicator) blockingIndicators
                         then True
                       else if length content < 500 \<and> \<not> includes_str contentLower ''<!doctype''
                               \<and> \<not> includes_str contentLower ''<html''
                         then True
                       else False))))"

section \<open>FetchOrchestrator: \<open>browse\<close> and \<open>performRequest\<close> (browse-optimized.mjs)\<close>

subsection \<open>Requests and results\<close>

record screenshot_opts =
  ss_enabled :: bool
  ss_full_page :: bool

record network_opts =
  nw_enabled :: bool
  nw_allow_types :: "string list"
  nw_block_urls :: "string list"
  nw_wait_until :: string

record viewport_opts =
  vp_width :: int
  vp_height :: int

record params =
  p_url :: string
  p_screenshot :: screenshot_opts
  p_network :: network_opts
  p_viewport :: viewport_opts
  p_timeout :: int
  p_user_agent :: "string option"
  p_proxy :: "request_proxy option"

record network_event =
  ne_method :: string
  ne_type :: string
  ne_url :: string
  ne_headers :: "(string \<times> string) list"
  ne_blocked :: bool
  ne_reason :: string

type_synonym metrics = "(string \<times> real) list"

text \<open>
  A result object \<open>{status, data}\<close>: \<open>Ok\<close> stands for \<open>status: 'ok'\<close> and \<open>Err\<close> for
  \<open>status: 'error'\<close>, each with the properties its \<open>data\<close> object is built with. Only the
  property \<open>proxy_used\<close> of an error result is present on some paths and absent on others.
\<close>

record ok_data =
  ok_exec :: real
  ok_network :: "network_event list"
  ok_metrics :: metrics
  ok_title :: string
  ok_html :: string
  ok_screenshot :: string
  ok_url :: string
  ok_timestamp :: string
  ok_proxy_used :: string

record err_data =
  err_exec :: real
  err_reason :: string
  err_message :: string
  err_url :: string
  err_timestamp :: string
  err_proxy_used :: "string option"

datatype fetch_result = Ok ok_data | Err err_data

definition status :: "fetch_result \<Rightarrow> string" where
  "status r = (case r of Ok _ \<Rightarrow> ''ok'' | Err _ \<Rightarrow> ''error'')"

definition proxy_used :: "fetch_result \<Rightarrow> string option" where
  "proxy_used r = (case r of Ok d \<Rightarrow> Some (ok_proxy_used d) | Err d \<Rightarrow> err_proxy_used d)"

subsection \<open>Number to text\<close>

text \<open>The decimal digits of a non-negative integer.\<close>

function decimal :: "int \<Rightarrow> string" where
  "decimal n =
     (if n < 10 then [''0123456789'' ! nat n]
      else decimal (n div 10) @ [''0123456789'' ! nat (n mod 10)])"
  by pat_completeness auto
termination
  by (relation "measure nat") auto

declare decimal.simps [simp del]

text \<open>The text a template literal gives for a number (integers below \<open>10^21\<close>).\<close>

definition numberToString :: "int option \<Rightarrow> string" where
  "numberToString v =
     (case v of
        None \<Rightarrow> ''NaN''
      | Some n \<Rightarrow> if n < 0 then CHR ''-'' # decimal (- n) else decimal n)"

subsection \<open>Error classification\<close>

text \<open>\<open>getErrorReason(error)\<close> on the message of the error.\<close>

definition getErrorReason :: "string \<Rightarrow> string" where
  "getErrorReason msg =
     (let message = toLowerCase msg in
      if includes_str message ''timeout'' \<or> includes_str message ''navigation timeout''
        then ''timeout''
      else if includes_str message ''net::err_name_not_resolved'' then ''dns_error''
      else if includes_str message ''net::err_connection_refused'' then ''connection_refused''
      else if includes_str message ''net::err_ssl_version_or_cipher_mismatch'' then ''ssl_error''
      else if includes_str message ''invalid url'' then ''invalid_url''
      else ''unknown_error'')"

definition retryReasons :: "string list" where
  "retryReasons = [''timeout'', ''connection_refused'', ''dns_error'']"

definition retryMessages :: "string list" where
  "retryMessages = [''blocked'', ''access denied'', ''forbidden'', ''rate limit'', ''captcha'']"

definition shouldRetryWithProxy :: "fetch_result \<Rightarrow> bool" where
  "shouldRetryWithProxy result =
     (case result of
        Ok _ \<Rightarrow> False
      | Err d \<Rightarrow>
          (let reason = err_reason d; message = toLowerCase (err_message d) in
           if List.member retryReasons reason then True
           else list_ex (\<lambda>retryMessage. includes_str message retryMessage) retryMessages))"

subsection \<open>One attempt: \<open>performRequest\<close>\<close>

text \<open>
  What the automation engine does during one attempt: the behaviour of the pool's engine,
  the value each awaited page operation rejects with (\<open>None\<close> when it resolves), the
  requests intercepted while navigating, the outcome of \<open>page.goto\<close> (a response, \<open>null\<close>, or
  a rejection), the title and content read by the block check, the outcome of
  \<open>page.screenshot\<close>, the outcome of the \<open>Promise.all\<close> collecting metrics, title and
  content, and the clock and timestamp read when the result is assembled.
\<close>

record page_env =
  pe_engine :: engine
  pe_newPage :: "thrown option"
  pe_authenticate :: "thrown option"
  pe_setViewport :: "thrown option"
  pe_setUserAgent :: "thrown option"
  pe_setRequestInterception :: "thrown option"
  pe_requests :: "request list"
  pe_goto :: "thrown + response option"
  pe_check_title :: "thrown + string"
  pe_check_content :: "thrown + string"
  pe_screenshot :: "thrown + string"
  pe_collect :: "thrown + (metrics \<times> string \<times> string)"
  pe_now :: int
  pe_timestamp :: string

text \<open>Engine calls made by an attempt, recorded to state which attempts acquired an
  instance and navigated.\<close>

datatype event =
    EvGetBrowser "proxy_config option"
  | EvGoto string
  | EvClosePage
  | EvCloseBrowser browser

record attempt =
  at_result :: "string + fetch_result"
  at_pool :: pool
  at_events :: "event list"

fun first_thrown :: "thrown option list \<Rightarrow> thrown option" where
  "first_thrown [] = None"
| "first_thrown (None # xs) = first_thrown xs"
| "first_thrown (Some e # xs) = Some e"

definition proxyUsed_of :: "proxy_config option \<Rightarrow> string" where
  "proxyUsed_of proxyConfig =
     (case proxyConfig of
        Some c \<Rightarrow> pc_host c @ '':'' @ numberToString (pc_port c)
      | None \<Rightarrow> ''none'')"

definition networkRequests_of :: "network_opts \<Rightarrow> request list \<Rightarrow> network_event list" where
  "networkRequests_of network rqs =
     (if nw_enabled network then
        map (\<lambda>rq. let shouldBlock = shouldBlockRequest rq (nw_allow_types network) (nw_block_urls network)
                  in \<lparr>ne_method = req_method rq, ne_type = req_resourceType rq, ne_url = req_url rq,
                      ne_headers = req_headers rq, ne_blocked = block shouldBlock,
                      ne_reason = reason shouldBlock\<rparr>) rqs
      else [])"

text \<open>The steps between \<open>browser.newPage()\<close> and \<open>page.goto\<close>, in order; \<open>Some e\<close> when one of
  them rejects with \<open>e\<close>.\<close>

definition page_setup :: "params \<Rightarrow> proxy_config option \<Rightarrow> page_env \<Rightarrow> thrown option" where
  "page_setup ps proxyConfig env =
     first_thrown
       [(case proxyConfig of
           Some c \<Rightarrow> if truthy_str (pc_username c) \<and> truthy_str (pc_password c)
                     then pe_authenticate env else None
         | None \<Rightarrow> None),
        pe_setViewport env,
        pe_setUserAgent env,
        (if nw_enabled (p_network ps) then pe_setRequestInterception env else None)]"

text \<open>The \<open>try\<close> block from \<open>page.goto\<close> on: the \<open>ok\<close> result, or the value thrown.\<close>

definition navigate :: "string \<Rightarrow> params \<Rightarrow> proxy_config option \<Rightarrow> int \<Rightarrow> page_env \<Rightarrow> thrown + fetch_result" where
  "navigate url ps proxyConfig startTime env =
     (case pe_goto env of
        Inl e \<Rightarrow> Inl e
      | Inr resp \<Rightarrow>
          if (case proxyConfig of
                Some c \<Rightarrow> pc_type c = ''hybrid''
                           \<and> isPageBlocked resp (pe_check_title env) (pe_check_content env)
              | None \<Rightarrow> False)
          then Inl (Some ''Page appears to be blocked'')
          else
            (case (if ss_enabled (p_screenshot ps) then pe_screenshot env else Inr []) of
               Inl e \<Rightarrow> Inl e
             | Inr screenshotData \<Rightarrow>
                 (case pe_collect env of
                    Inl e \<Rightarrow> Inl e
                  | Inr (metrics, title, html) \<Rightarrow>
                      Inr (Ok \<lparr>ok_exec = real_of_int (pe_now env - startTime) / 1000,
                               ok_network = networkRequests_of (p_network ps) (pe_requests env),
                               ok_metrics = metrics,
                               ok_title = title,
                               ok_html = html,
                               ok_screenshot = screenshotData,
                               ok_url = url,
                               ok_timestamp = pe_timestamp env,
                               ok_proxy_used = proxyUsed_of proxyConfig\<rparr>))))"

definition toLowerCase_of_undefined :: string where
  "toLowerCase_of_undefined =
     ''Cannot read properties of undefined (reading '' @ [CHR 0x27] @ ''toLowerCase''
       @ [CHR 0x27] @ '')''"

text \<open>
  The \<open>catch\<close> block of \<open>performRequest\<close>. For a thrown value without a message,
  \<open>getErrorReason\<close> calls \<open>toLowerCase\<close> on \<open>undefined\<close>, and the \<open>TypeError\<close> leaves the
  function (\<open>Inl\<close> with its message).
\<close>

definition attempt_catch :: "thrown \<Rightarrow> string \<Rightarrow> proxy_config option \<Rightarrow> int \<Rightarrow> page_env \<Rightarrow> string + fetch_result" where
  "attempt_catch error url proxyConfig startTime env =
     (case error of
        None \<Rightarrow> Inl toLowerCase_of_undefined
      | Some m \<Rightarrow>
          Inr (Err \<lparr>err_exec = real_of_int (pe_now env - startTime) / 1000,
                    err_reason = getErrorReason m,
                    err_message = (if m = [] then ''Unknown error'' else m),
                    err_url = url,
                    err_timestamp = pe_timestamp env,
                    err_proxy_used = Some (proxyUsed_of proxyConfig)\<rparr>))"

definition performRequest :: "string \<Rightarrow> params \<Rightarrow> proxy_config option \<Rightarrow> int \<Rightarrow> page_env \<Rightarrow> pool \<Rightarrow> attempt" where
  "performRequest url ps proxyConfig startTime env p =
     (let acq = getBrowser (proxyConfig \<noteq> None) (pe_engine env) p;
          finally_browser = (\<lambda>b. if proxyConfig \<noteq> None then [EvCloseBrowser b] else [])
      in case got acq of
           Inl e \<Rightarrow>
             \<lparr>at_result = attempt_catch e url proxyConfig startTime env,
              at_pool = pool_after acq,
              at_events = [EvGetBrowser proxyConfig]\<rparr>
         | Inr b \<Rightarrow>
             (case pe_newPage env of
                Some e \<Rightarrow>
                  \<lparr>at_result = attempt_catch e url proxyConfig startTime env,
                   at_pool = pool_after acq,
                   at_events = EvGetBrowser proxyConfig # finally_browser b\<rparr>
              | None \<Rightarrow>
                  (case page_setup ps proxyConfig env of
                     Some e \<Rightarrow>
                       \<lparr>at_result = attempt_catch e url proxyConfig startTime env,
                        at_pool = pool_after acq,
                        at_events = [EvGetBrowser proxyConfig, EvClosePage] @ finally_browser b\<rparr>
                   | None \<Rightarrow>
                       \<lparr>at_result =
                          (case navigate url ps proxyConfig startTime env of
                             Inl e \<Rightarrow> attempt_catch e url proxyConfig startTime env
                           | Inr r \<Rightarrow> Inr r),
                        at_pool = pool_after acq,
                        at_events =
                          [EvGetBrowser proxyConfig, EvGoto url, EvClosePage] @ finally_browser b\<rparr>)))"

subsection \<open>The orchestrator: \<open>browse\<close>\<close>

text \<open>
  The surroundings of one call of \<open>browse\<close>: the clock at entry, the message of the
  \<open>TypeError\<close> that \<open>new URL(url)\<close> throws (\<open>None\<close> when the URL parses), \<open>process.env\<close>, the
  clock and timestamp read when a result is assembled outside an attempt, and the
  engine's behaviour during the first, the second and the third attempt.
\<close>

record world =
  w_start :: int
  w_new_URL :: "string option"
  w_env :: environment
  w_now :: int
  w_timestamp :: string
  w_first :: page_env
  w_second :: page_env
  w_third :: page_env

record browsed =
  br_result :: fetch_result
  br_pool :: pool
  br_events :: "event list"

definition createProxyErrorResponse :: "string \<Rightarrow> string \<Rightarrow> real \<Rightarrow> string \<Rightarrow> fetch_result" where
  "createProxyErrorResponse msg url executionTime ts =
     (let errorMessage = (if msg = [] then ''Proxy error'' else msg) in
      Err \<lparr>err_exec = executionTime,
           err_reason = createProxyErrorReason errorMessage,
           err_message = errorMessage,
           err_url = url,
           err_timestamp = ts,
           err_proxy_used = None\<rparr>)"

text \<open>The outer \<open>catch\<close> block of \<open>browse\<close>, for an error with message \<open>msg\<close>.\<close>

definition browse_catch :: "string \<Rightarrow> string \<Rightarrow> world \<Rightarrow> fetch_result" where
  "browse_catch msg url w =
     Err \<lparr>err_exec = real_of_int (w_now w - w_start w) / 1000,
          err_reason = getErrorReason msg,
          err_message = (if msg = [] then ''Unknown error'' else msg),
          err_url = url,
          err_timestamp = w_timestamp w,
          err_proxy_used = None\<rparr>"

text \<open>An attempt whose outcome \<open>browse\<close> returns: a value thrown by it reaches the outer
  \<open>catch\<close>.\<close>

definition returned :: "attempt \<Rightarrow> string \<Rightarrow> world \<Rightarrow> event list \<Rightarrow> browsed" where
  "returned a url w before =
     \<lparr>br_result = (case at_result a of Inl m \<Rightarrow> browse_catch m url w | Inr r \<Rightarrow> r),
      br_pool = at_pool a,
      br_events = before @ at_events a\<rparr>"

text \<open>
  In the hybrid branch both \<open>return await performRequest(...)\<close> on line 62 and the direct
  attempt on line 57 stand inside the inner \<open>try\<close>: a rejection of either is caught on
  line 66, and line 69 starts a further proxy-bound attempt. A rejection of the attempt
  started in that \<open>catch\<close> block, like one in the static branch or without proxy, reaches
  the outer \<open>catch\<close>.
\<close>

definition browse :: "params \<Rightarrow> world \<Rightarrow> pool \<Rightarrow> browsed" where
  "browse ps w p =
     (let url = p_url ps; start = w_start w in
      case w_new_URL w of
        Some m \<Rightarrow> \<lparr>br_result = browse_catch m url w, br_pool = p, br_events = []\<rparr>
      | None \<Rightarrow>
          (case getProxyConfig (p_proxy ps) (w_env w) of
             Inl m \<Rightarrow>
               \<lparr>br_result =
                  createProxyErrorResponse m url (real_of_int (w_now w - start) / 1000) (w_timestamp w),
                br_pool = p, br_events = []\<rparr>
           | Inr proxyConfig \<Rightarrow>
               if (case proxyConfig of Some c \<Rightarrow> pc_type c = ''static'' | None \<Rightarrow> False) then
                 returned (performRequest url ps proxyConfig start (w_first w) p) url w []
               else if (case proxyConfig of Some c \<Rightarrow> pc_type c = ''hybrid'' | None \<Rightarrow> False) then
                 (let direct = performRequest url ps None start (w_first w) p in
                  case at_result direct of
                    Inr result \<Rightarrow>
                      if status result = ''error'' \<and> shouldRetryWithProxy result then
                        (let retry = performRequest url ps proxyConfig start (w_second w)
                                       (at_pool direct)
                         in case at_result retry of
                              Inr r \<Rightarrow>
                                \<lparr>br_result = r, br_pool = at_pool retry,
                                 br_events = at_events direct @ at_events retry\<rparr>
                            | Inl _ \<Rightarrow>
                                returned (performRequest url ps proxyConfig start (w_third w)
                                            (at_pool retry))
                                  url w (at_events direct @ at_events retry))
                      else \<lparr>br_result = result, br_pool = at_pool direct,
                            br_events = at_events direct\<rparr>
                  | Inl _ \<Rightarrow>
                      returned (performRequest url ps proxyConfig start (w_second w) (at_pool direct))
                        url w (at_events direct))
               else
                 returned (performRequest url ps None start (w_first w) p) url w []))"

text \<open>The \<open>proxyConfig\<close> arguments of the attempts made, in order.\<close>

fun attempts :: "event list \<Rightarrow> proxy_config option list" where
  "attempts [] = []"
| "attempts (EvGetBrowser pc # es) = pc # attempts es"
| "attempts (_ # es) = attempts es"

subsection \<open>The attempts of hybrid mode\<close>

text \<open>The call on line 57 (no proxy binding), the call that follows it (line 62, or line 69
  when the direct attempt throws; bound to the resolved proxy, on the pool the first
  attempt left), and the call on line 69 after a retry from line 62 that throws.\<close>

definition direct_attempt :: "params \<Rightarrow> world \<Rightarrow> pool \<Rightarrow> attempt" where
  "direct_attempt ps w p = performRequest (p_url ps) ps None (w_start w) (w_first w) p"

definition proxy_retry :: "params \<Rightarrow> proxy_config \<Rightarrow> world \<Rightarrow> pool \<Rightarrow> attempt" where
  "proxy_retry ps c w p =
     performRequest (p_url ps) ps (Some c) (w_start w) (w_second w) (at_pool (direct_attempt ps w p))"

definition second_retry :: "params \<Rightarrow> proxy_config \<Rightarrow> world \<Rightarrow> pool \<Rightarrow> attempt" where
  "second_retry ps c w p =
     performRequest (p_url ps) ps (Some c) (w_start w) (w_third w) (at_pool (proxy_retry ps c w p))"

subsection \<open>Sample inputs\<close>

definition calm_engine :: "browser \<Rightarrow> engine" where
  "calm_engine b = \<lparr>isConnected = (\<lambda>_. True), launch = Inr b, close_rejects = (\<lambda>_. False)\<rparr>"

text \<open>Four calls without proxy, all started before the launch of any of them resolves.\<close>

definition overlapping_calls :: "action list" where
  "overlapping_calls =
     [Call False (calm_engine 0), Call False (calm_engine 1), Call False (calm_engine 2),
      Call False (calm_engine 3),
      Resume 0 (calm_engine 0), Resume 1 (calm_engine 1), Resume 2 (calm_engine 2),
      Resume 3 (calm_engine 3)]"

text \<open>An attempt in which every engine call succeeds and navigation ends with the given
  HTTP status on a small HTML page.\<close>

definition page_with_status :: "browser \<Rightarrow> int \<Rightarrow> int \<Rightarrow> page_env" where
  "page_with_status b code now =
     \<lparr>pe_engine = calm_engine b,
      pe_newPage = None, pe_authenticate = None, pe_setViewport = None,
      pe_setUserAgent = None, pe_setRequestInterception = None,
      pe_requests = [],
      pe_goto = Inr (Some \<lparr>resp_status = code, resp_url = ''https://x/''\<rparr>),
      pe_check_title = Inr ''Shop'',
      pe_check_content = Inr ''<html><body>hello</body></html>'',
      pe_screenshot = Inr [],
      pe_collect = Inr ([], ''Shop'', ''<html><body>hello</body></html>''),
      pe_now = now,
      pe_timestamp = ''2025-01-31T11:53:42.337Z''\<rparr>"

text \<open>An attempt whose navigation rejects with the given message.\<close>

definition page_failing :: "browser \<Rightarrow> string \<Rightarrow> int \<Rightarrow> page_env" where
  "page_failing b msg now = (page_with_status b 200 now)\<lparr>pe_goto := Inl (Some msg)\<rparr>"

definition sample_params :: "request_proxy option \<Rightarrow> params" where
  "sample_params px =
     \<lparr>p_url = ''https://x/'',
      p_screenshot = \<lparr>ss_enabled = False, ss_full_page = False\<rparr>,
      p_network = \<lparr>nw_enabled = False, nw_allow_types = [], nw_block_urls = [],
                   nw_wait_until = ''networkidle0''\<rparr>,
      p_viewport = \<lparr>vp_width = 1200, vp_height = 800\<rparr>,
      p_timeout = 5000,
      p_user_agent = None,
      p_proxy = px\<rparr>"

definition no_environment :: environment where
  "no_environment =
     \<lparr>PROXY_HOST = None, PROXY_PORT = None, PROXY_USERNAME = None, PROXY_PASSWORD = None\<rparr>"

definition hybrid_h_8080 :: request_proxy where
  "hybrid_h_8080 =
     \<lparr>rp_enabled = Some True, rp_type = Some ''hybrid'', rp_host = Some ''h'',
      rp_port = Some 8080, rp_username = None, rp_password = None\<rparr>"

definition sample_world :: "page_env \<Rightarrow> page_env \<Rightarrow> world" where
  "sample_world e1 e2 =
     \<lparr>w_start = 1000, w_new_URL = None, w_env = no_environment, w_now = 1002,
      w_timestamp = ''2025-01-31T11:53:42.337Z'', w_first = e1, w_second = e2,
      w_third = e2\<rparr>"

definition woff_request :: request where
  "woff_request =
     \<lparr>req_method = ''GET'', req_resourceType = ''font'', req_url = ''https://x/a.woff'',
      req_headers = []\<rparr>"

definition document_request :: request where
  "document_request =
     \<lparr>req_method = ''GET'', req_resourceType = ''document'', req_url = ''https://x/'',
      req_headers = []\<rparr>"

definition hybrid_config :: proxy_config where
  "hybrid_config =
     \<lparr>pc_enabled = True, pc_type = ''hybrid'', pc_host = ''h'', pc_port = Some 8080,
      pc_username = None, pc_password = None\<rparr>"

definition static_without_host :: request_proxy where
  "static_without_host =
     \<lparr>rp_enabled = Some True, rp_type = Some ''static'', rp_host = None, rp_port = None,
      rp_username = None, rp_password = None\<rparr>"

definition timeout_message :: string where
  "timeout_message = ''Navigation timeout of 5000 ms exceeded''"

text \<open>Both attempts run into the navigation timeout.\<close>

definition timeout_world :: world where
  "timeout_world =
     sample_world (page_failing 0 timeout_message 6000) (page_failing 1 timeout_message 11000)"

text \<open>The direct attempt runs into the navigation timeout; in the retry \<open>page.goto\<close> rejects
  with a value that has no message, so the retry itself throws; a further proxy-bound
  attempt runs into the timeout again.\<close>

definition retry_throws_world :: world where
  "retry_throws_world =
     (sample_world (page_failing 0 timeout_message 6000)
                   ((page_with_status 1 200 7000)\<lparr>pe_goto := Inl None\<rparr>))
       \<lparr>w_third := page_failing 2 timeout_message 16000\<rparr>"

definition timeout_error :: "real \<Rightarrow> string \<Rightarrow> err_data" where
  "timeout_error t used =
     \<lparr>err_exec = t, err_reason = ''timeout'', err_message = timeout_message,
      err_url = ''https://x/'', err_timestamp = ''2025-01-31T11:53:42.337Z'',
      err_proxy_used = Some used\<rparr>"

text \<open>The direct navigation ends with HTTP 403; a navigation through the proxy would end
  with HTTP 200.\<close>

definition blocked_world :: world where
  "blocked_world = sample_world (page_with_status 0 403 1500) (page_with_status 1 200 2500)"

text \<open>Every navigation ends with HTTP 200.\<close>

definition plain_world :: world where
  "plain_world = sample_world (page_with_status 0 200 1500) (page_with_status 1 200 2500)"

definition invalid_url_world :: world where
  "invalid_url_world = plain_world\<lparr>w_new_URL := Some ''Invalid URL''\<rparr>"

text \<open>The \<open>ok\<close> data of the direct attempt in \<open>plain_world\<close>.\<close>

definition plain_ok :: ok_data where
  "plain_ok =
     \<lparr>ok_exec = 1 / 2, ok_network = [], ok_metrics = [], ok_title = ''Shop'',
      ok_html = ''<html><body>hello</body></html>'', ok_screenshot = [],
      ok_url = ''https://x/'', ok_timestamp = ''2025-01-31T11:53:42.337Z'',
      ok_proxy_used = ''none''\<rparr>"

definition env_h_abc :: environment where
  "env_h_abc =
     \<lparr>PROXY_HOST = Some ''h'', PROXY_PORT = Some ''abc'', PROXY_USERNAME = None,
      PROXY_PASSWORD = None\<rparr>"

definition env_h_3128 :: environment where
  "env_h_3128 =
     \<lparr>PROXY_HOST = Some ''h'', PROXY_PORT = Some ''3128'', PROXY_USERNAME = None,
      PROXY_PASSWORD = None\<rparr>"

subsection \<open>The retry condition as the specification words it\<close>

text \<open>
  The reason is one of \<open>timeout\<close>, \<open>connection_refused\<close>, \<open>dns_error\<close>, or the message
  contains one of \<open>blocked\<close>, \<open>access denied\<close>, \<open>forbidden\<close>, \<open>rate limit\<close>, \<open>captcha\<close>
  without regard to case. Lemma \<open>shouldRetryWithProxy_Err\<close> compares it with the code.
\<close>

definition retry_condition :: "err_data \<Rightarrow> bool" where
  "retry_condition d =
     (err_reason d \<in> {''timeout'', ''connection_refused'', ''dns_error''}
      \<or> (\<exists>m \<in> {''blocked'', ''access denied'', ''forbidden'', ''rate limit'', ''captcha''}.
            includes_str (toLowerCase (err_message d)) m))"

section \<open>Properties of the request filter\<close>

text \<open>
  Claim C7. For every URL and every block list that does not match the URL, a request of
  resource type \<open>font\<close> is blocked with reason \<open>font_blocked\<close>, whatever the allow list
  holds, also when it holds \<open>font\<close>.
\<close>

theorem font_is_blocked:
  "\<not> list_ex (\<lambda>blockedUrl. includes_str (req_url rq) blockedUrl) blockUrls \<Longrightarrow>
   req_resourceType rq = ''font'' \<Longrightarrow>
   shouldBlockRequest rq allowTypes blockUrls = \<lparr>block = True, reason = ''font_blocked''\<rparr>"
  by (simp add: shouldBlockRequest_def)

text \<open>The instance of the specification: \<open>decide("font", "https://x/a.woff", ["font"], [])\<close>.\<close>

theorem font_is_blocked_witness:
  "\<not> list_ex (\<lambda>blockedUrl. includes_str (req_url woff_request) blockedUrl) []
   \<and> req_resourceType woff_request = ''font''
   \<and> List.member [''font''] ''font''
   \<and> shouldBlockRequest woff_request [''font''] [] = \<lparr>block = True, reason = ''font_blocked''\<rparr>"
  using font_is_blocked [of woff_request "[]" "[''font'']"]
  by (simp add: woff_request_def)

text \<open>
  Claim C8. For every URL that contains some element of the block list, the request is
  blocked with reason \<open>blocked_url\<close> whatever its resource type: the block list is consulted
  before the rule that allows documents.
\<close>

theorem block_list_precedes_document_rule:
  "list_ex (\<lambda>blockedUrl. includes_str (req_url rq) blockedUrl) blockUrls \<Longrightarrow>
   shouldBlockRequest rq allowTypes blockUrls = \<lparr>block = True, reason = ''blocked_url''\<rparr>"
  by (simp add: shouldBlockRequest_def)

text \<open>The instance of the specification: \<open>decide("document", "https://x/", [], ["https://x/"])\<close>.\<close>

theorem block_list_precedes_document_rule_witness:
  "list_ex (\<lambda>blockedUrl. includes_str (req_url document_request) blockedUrl) [''https://x/'']
   \<and> req_resourceType document_request = ''document''
   \<and> shouldBlockRequest document_request [] [''https://x/'']
       = \<lparr>block = True, reason = ''blocked_url''\<rparr>"
proof -
  have matches: "list_ex (\<lambda>blockedUrl. includes_str (req_url document_request) blockedUrl) [''https://x/'']"
    by (simp add: document_request_def includes_str_def)
  from block_list_precedes_document_rule [OF matches, of "[]"] matches show ?thesis
    by (simp add: document_request_def)
qed

section \<open>Properties of the browser pool\<close>

lemma getBrowser_keeps_bound:
  "length (browsers p) \<le> maxBrowsers p \<Longrightarrow>
   length (browsers (pool_after (getBrowser proxied eng p))) \<le> maxBrowsers p"
  by (auto simp: getBrowser_def Let_def index_write_def next_index_def index_read_def
           split: sum.splits option.splits jsnum.splits if_splits)

lemma getBrowser_maxBrowsers:
  "maxBrowsers (pool_after (getBrowser proxied eng p)) = maxBrowsers p"
  by (auto simp: getBrowser_def Let_def split: sum.splits option.splits)

lemma getBrowser_seq_keeps_bound:
  "length (browsers p) \<le> maxBrowsers p \<Longrightarrow>
   length (browsers (snd (getBrowser_seq cs p))) \<le> maxBrowsers p"
proof (induction cs arbitrary: p)
  case Nil
  then show ?case by simp
next
  case (Cons c cs)
  obtain proxied eng where c: "c = (proxied, eng)" by (cases c)
  let ?q = "pool_after (getBrowser proxied eng p)"
  have "length (browsers ?q) \<le> maxBrowsers ?q"
    using Cons.prems by (simp add: getBrowser_keeps_bound getBrowser_maxBrowsers)
  then have "length (browsers (snd (getBrowser_seq cs ?q))) \<le> maxBrowsers ?q"
    by (rule Cons.IH)
  then show ?case
    by (simp add: c Let_def getBrowser_maxBrowsers case_prod_beta)
qed

text \<open>
  When every call runs to completion before the next one starts, a pool created with
  bound \<open>n\<close> never holds more than \<open>n\<close> instances, whatever the engine does at
  each call (instances disconnecting, launches failing); and a call with a proxy
  configuration leaves the pool as it was, so the instance it creates is not inserted.
\<close>

lemma awaited_calls_keep_bound:
  "length (browsers (snd (getBrowser_seq cs (newBrowserPool n)))) \<le> n
   \<and> pool_after (getBrowser True eng p) = p"
proof
  have "length (browsers (newBrowserPool n)) \<le> maxBrowsers (newBrowserPool n)"
    by (simp add: newBrowserPool_def)
  from getBrowser_seq_keeps_bound [OF this]
  show "length (browsers (snd (getBrowser_seq cs (newBrowserPool n)))) \<le> n"
    by (simp add: newBrowserPool_def)
  show "pool_after (getBrowser True eng p) = p"
    by (simp add: getBrowser_def)
qed

text \<open>A call that is resumed at once, twice at most, is the call \<open>getBrowser\<close> describes.\<close>

lemma getBrowser_alone:
  "getBrowser_resume
     (fst (getBrowser_resume (fst (getBrowser_begin proxied eng p)) eng
             (snd (getBrowser_begin proxied eng p))))
     eng
     (snd (getBrowser_resume (fst (getBrowser_begin proxied eng p)) eng
             (snd (getBrowser_begin proxied eng p))))
   = (Settled (got (getBrowser proxied eng p)), pool_after (getBrowser proxied eng p))"
  by (auto simp: getBrowser_begin_def getBrowser_resume_def getBrowser_def Let_def
           split: sum.splits option.splits)

text \<open>
  Claim C5 says that the number of pooled instances never exceeds \<open>maxBrowsers\<close>, for all
  sequences of calls without proxy. \<open>getBrowser\<close> tests \<open>browsers.length < maxBrowsers\<close>
  (line 151) and appends only after \<open>await this.createBrowser()\<close> (lines 152 and 153), so
  calls started while earlier ones are still launching all pass the test. Four such calls
  on the new pool with bound 3 leave four instances in the pool.
\<close>

theorem overlapping_calls_exceed_maxBrowsers:
  "maxBrowsers browserPool = 3
   \<and> run overlapping_calls \<lparr>sv_pool = browserPool, sv_calls = []\<rparr>
     = \<lparr>sv_pool = \<lparr>browsers = [Some 0, Some 1, Some 2, Some 3], maxBrowsers = 3,
                   currentIndex = Num 0\<rparr>,
        sv_calls = [Settled (Inr 0), Settled (Inr 1), Settled (Inr 2), Settled (Inr 3)]\<rparr>
   \<and> length (browsers (sv_pool (run overlapping_calls \<lparr>sv_pool = browserPool, sv_calls = []\<rparr>))) = 4"
  by (simp add: overlapping_calls_def act_def getBrowser_begin_def getBrowser_resume_def
        browserPool_def newBrowserPool_def calm_engine_def createBrowser_def)

text \<open>
  Claim C6. On a new pool with bound 3 and no instance disconnecting, the first three
  calls without proxy each launch an instance and append it, and the fourth returns the
  instance in slot 0 without launching: the instances returned are those of slots
  0, 1, 2, 0.
\<close>

theorem round_robin_order:
  "getBrowser_seq
     [(False, \<lparr>isConnected = (\<lambda>_. True), launch = Inr b0, close_rejects = c0\<rparr>),
      (False, \<lparr>isConnected = (\<lambda>_. True), launch = Inr b1, close_rejects = c1\<rparr>),
      (False, \<lparr>isConnected = (\<lambda>_. True), launch = Inr b2, close_rejects = c2\<rparr>)]
     (newBrowserPool 3)
   = ([Inr b0, Inr b1, Inr b2],
      \<lparr>browsers = [Some b0, Some b1, Some b2], maxBrowsers = 3, currentIndex = Num 0\<rparr>)
   \<and>
   getBrowser_seq
     [(False, \<lparr>isConnected = (\<lambda>_. True), launch = Inr b0, close_rejects = c0\<rparr>),
      (False, \<lparr>isConnected = (\<lambda>_. True), launch = Inr b1, close_rejects = c1\<rparr>),
      (False, \<lparr>isConnected = (\<lambda>_. True), launch = Inr b2, close_rejects = c2\<rparr>),
      (False, \<lparr>isConnected = (\<lambda>_. True), launch = l3, close_rejects = c3\<rparr>)]
     (newBrowserPool 3)
   = ([Inr b0, Inr b1, Inr b2, Inr b0],
      \<lparr>browsers = [Some b0, Some b1, Some b2], maxBrowsers = 3, currentIndex = Num 1\<rparr>)"
  by (simp add: newBrowserPool_def getBrowser_def createBrowser_def index_read_def
        next_index_def Let_def)

text \<open>
  Claim C2 says that on a full pool whose instance at the cursor is disconnected, the next
  call without proxy closes that instance and replaces its slot. The code advances
  \<open>currentIndex\<close> before it writes the new instance, so the write lands on the following
  slot. On the full pool \<open>[0, 1, 2]\<close> with cursor 0 and instance 0 disconnected, the call
  closes instance 0 and returns the new instance 3, but the pool becomes \<open>[0, 3, 2]\<close>: the
  disconnected instance stays in slot 0 and the connected instance 1 is dropped.
\<close>

theorem replacement_lands_on_next_slot:
  "getBrowser False \<lparr>isConnected = (\<lambda>b. b \<noteq> 0), launch = Inr 3, close_rejects = (\<lambda>_. False)\<rparr>
     \<lparr>browsers = [Some 0, Some 1, Some 2], maxBrowsers = 3, currentIndex = Num 0\<rparr>
   = \<lparr>got = Inr 3,
      pool_after = \<lparr>browsers = [Some 0, Some 3, Some 2], maxBrowsers = 3, currentIndex = Num 1\<rparr>,
      closed = [0]\<rparr>"
  by (simp add: getBrowser_def createBrowser_def index_read_def index_write_def
        next_index_def Let_def)

section \<open>Properties of the proxy resolver\<close>

text \<open>
  Claim C9. When the request sets \<open>enabled = true\<close> and neither the request nor the
  environment yields a complete host and port, \<open>getProxyConfig\<close> throws; \<open>browse\<close> (on a URL
  that parses) then returns an error result with reason \<open>proxy_error\<close> and the thrown
  message, whose \<open>exec\<close> is the time between the two clock readings of \<open>browse\<close>, without any
  attempt: no instance is acquired, nothing is navigated, the pool is untouched. The
  environment yields no host and port also when \<open>PROXY_PORT\<close> is set but is not a non-zero
  number; the message then is the one of the validation step.
\<close>

theorem unresolvable_proxy_is_error:
  assumes "w_new_URL w = None"
      and "p_proxy ps = Some rp"
      and "rp_enabled rp = Some True"
      and "\<not> (truthy_str (rp_host rp) \<and> truthy_num (rp_port rp))"
      and "\<not> (truthy_str (PROXY_HOST (w_env w)) \<and> truthy_str (PROXY_PORT (w_env w))
              \<and> truthy_num (parseInt (or_default (PROXY_PORT (w_env w)) [])))"
  shows "getProxyConfig (p_proxy ps) (w_env w) =
           Inl (if truthy_str (PROXY_HOST (w_env w)) \<and> truthy_str (PROXY_PORT (w_env w))
                then required_message else missing_message)
         \<and> browse ps w p =
           \<lparr>br_result =
              Err \<lparr>err_exec = real_of_int (w_now w - w_start w) / 1000,
                   err_reason = ''proxy_error'',
                   err_message =
                     (if truthy_str (PROXY_HOST (w_env w)) \<and> truthy_str (PROXY_PORT (w_env w))
                      then required_message else missing_message),
                   err_url = p_url ps,
                   err_timestamp = w_timestamp w,
                   err_proxy_used = None\<rparr>,
            br_pool = p,
            br_events = []\<rparr>"
proof -
  let ?m = "if truthy_str (PROXY_HOST (w_env w)) \<and> truthy_str (PROXY_PORT (w_env w))
            then required_message else missing_message"
  have resolved: "getProxyConfig (p_proxy ps) (w_env w) = Inl ?m"
    using assms
    by (auto simp: getProxyConfig_def buildProxyConfig_def Let_def)
  have reasons: "createProxyErrorReason required_message = ''proxy_error''"
    "createProxyErrorReason missing_message = ''proxy_error''"
    by code_simp+
  have nonempty: "required_message \<noteq> []" "missing_message \<noteq> []"
    by (simp_all add: required_message_def missing_message_def)
  show ?thesis
    using assms(1) resolved reasons nonempty
    by (simp add: browse_def Let_def createProxyErrorResponse_def)
qed

text \<open>The scenario of the specification: \<open>proxy: {enabled: true, type: "static"}\<close> and no
  environment variables.\<close>

theorem unresolvable_proxy_is_error_witness:
  "w_new_URL plain_world = None
   \<and> p_proxy (sample_params (Some static_without_host)) = Some static_without_host
   \<and> rp_enabled static_without_host = Some True
   \<and> \<not> (truthy_str (rp_host static_without_host) \<and> truthy_num (rp_port static_without_host))
   \<and> \<not> (truthy_str (PROXY_HOST (w_env plain_world)) \<and> truthy_str (PROXY_PORT (w_env plain_world))
              \<and> truthy_num (parseInt (or_default (PROXY_PORT (w_env plain_world)) [])))
   \<and> getProxyConfig (Some static_without_host) no_environment = Inl missing_message
   \<and> browse (sample_params (Some static_without_host)) plain_world browserPool =
           \<lparr>br_result =
              Err \<lparr>err_exec = 2 / 1000,
                   err_reason = ''proxy_error'',
                   err_message = missing_message,
                   err_url = ''https://x/'',
                   err_timestamp = ''2025-01-31T11:53:42.337Z'',
                   err_proxy_used = None\<rparr>,
            br_pool = browserPool,
            br_events = []\<rparr>"
proof -
  have h1: "w_new_URL plain_world = None"
    by (simp add: plain_world_def sample_world_def)
  have h2: "p_proxy (sample_params (Some static_without_host)) = Some static_without_host"
    by (simp add: sample_params_def)
  have h3: "rp_enabled static_without_host = Some True"
    by (simp add: static_without_host_def)
  have h4: "\<not> (truthy_str (rp_host static_without_host) \<and> truthy_num (rp_port static_without_host))"
    by (simp add: static_without_host_def truthy_str_def)
  have env: "w_env plain_world = no_environment"
    by (simp add: plain_world_def sample_world_def)
  have h5: "\<not> (truthy_str (PROXY_HOST (w_env plain_world)) \<and> truthy_str (PROXY_PORT (w_env plain_world))
              \<and> truthy_num (parseInt (or_default (PROXY_PORT (w_env plain_world)) [])))"
    by (simp add: env no_environment_def truthy_str_def)
  have host: "\<not> truthy_str (PROXY_HOST no_environment)"
    by (simp add: no_environment_def truthy_str_def)
  have fields: "w_now plain_world = 1002" "w_start plain_world = 1000"
    "w_timestamp plain_world = ''2025-01-31T11:53:42.337Z''"
    "p_url (sample_params (Some static_without_host)) = ''https://x/''"
    by (simp_all add: plain_world_def sample_world_def sample_params_def)
  from unresolvable_proxy_is_error [OF h1 h2 h3 h4 h5, of browserPool]
  show ?thesis
    using h1 h2 h3 h4 h5 by (simp add: env host fields)
qed

text \<open>
  Claim C10, amended. When \<open>PROXY_HOST\<close> is a non-empty text and \<open>PROXY_PORT\<close> is a text that
  \<open>parseInt\<close> reads as a non-zero integer, a request object without \<open>enabled\<close> resolves to
  an enabled configuration built from the environment (type from the request, \<open>hybrid\<close>
  when it gives none), and the resolver returns \<open>null\<close> exactly when the request says
  \<open>enabled = false\<close>.
\<close>

theorem environment_enables_proxy:
  assumes "PROXY_HOST env = Some host" and "host \<noteq> []"
      and "PROXY_PORT env = Some port"
      and "parseInt port = Some n" and "n \<noteq> 0"
  shows "(rp_enabled rp = None \<longrightarrow>
            getProxyConfig (Some rp) env =
              Inr (Some \<lparr>pc_enabled = True,
                         pc_type = or_default (rp_type rp) ''hybrid'',
                         pc_host = host,
                         pc_port = Some n,
                         pc_username = or_else (rp_username rp) (PROXY_USERNAME env),
                         pc_password = or_else (rp_password rp) (PROXY_PASSWORD env)\<rparr>))
         \<and> (getProxyConfig (Some rp) env = Inr None \<longleftrightarrow> rp_enabled rp = Some False)"
proof -
  have port: "port \<noteq> []"
    using assms(4) by (auto simp: parseInt_def Let_def)
  have env_ok: "truthy_str (PROXY_HOST env)" "truthy_str (PROXY_PORT env)"
    "or_default (PROXY_HOST env) [] = host" "or_default (PROXY_PORT env) [] = port"
    using assms(1-3) port by (simp_all add: truthy_str_def or_default_def)
  have absent: "getProxyConfig (Some rp) env =
              Inr (Some \<lparr>pc_enabled = True,
                         pc_type = or_default (rp_type rp) ''hybrid'',
                         pc_host = host,
                         pc_port = Some n,
                         pc_username = or_else (rp_username rp) (PROXY_USERNAME env),
                         pc_password = or_else (rp_password rp) (PROXY_PASSWORD env)\<rparr>)"
    if "rp_enabled rp = None"
    using that assms(2,4,5) env_ok
    by (simp add: getProxyConfig_def buildProxyConfig_def truthy_num_def)
  have suppressed: "getProxyConfig (Some rp) env = Inr None \<longleftrightarrow> rp_enabled rp = Some False"
  proof (cases "rp_enabled rp = Some True \<and> truthy_str (rp_host rp) \<and> truthy_num (rp_port rp)")
    case True
    then show ?thesis
      by (auto simp: getProxyConfig_def buildProxyConfig_def truthy_str_def or_default_def
            split: option.splits)
  next
    case False
    then show ?thesis
      using assms(2,4,5) env_ok
      by (auto simp: getProxyConfig_def buildProxyConfig_def truthy_num_def)
  qed
  from absent suppressed show ?thesis by blast
qed

text \<open>An environment with host \<open>h\<close> and port \<open>3128\<close>, and the empty request object.\<close>

theorem environment_enables_proxy_witness:
  "PROXY_HOST env_h_3128 = Some ''h'' \<and> ''h'' \<noteq> []
   \<and> PROXY_PORT env_h_3128 = Some ''3128''
   \<and> parseInt ''3128'' = Some 3128 \<and> (3128 :: int) \<noteq> 0
   \<and> rp_enabled empty_request_proxy = None
   \<and> getProxyConfig (Some empty_request_proxy) env_h_3128 =
        Inr (Some \<lparr>pc_enabled = True, pc_type = ''hybrid'', pc_host = ''h'', pc_port = Some 3128,
                   pc_username = None, pc_password = None\<rparr>)
   \<and> getProxyConfig (Some (empty_request_proxy\<lparr>rp_enabled := Some False\<rparr>)) env_h_3128 = Inr None"
proof -
  have h1: "PROXY_HOST env_h_3128 = Some ''h''" by (simp add: env_h_3128_def)
  have h2: "''h'' \<noteq> []" by simp
  have h3: "PROXY_PORT env_h_3128 = Some ''3128''" by (simp add: env_h_3128_def)
  have h4: "parseInt ''3128'' = Some 3128" by code_simp
  have h5: "(3128 :: int) \<noteq> 0" by simp
  have absent: "rp_enabled empty_request_proxy = None" by (simp add: empty_request_proxy_def)
  have off: "rp_enabled (empty_request_proxy\<lparr>rp_enabled := Some False\<rparr>) = Some False" by simp
  have others: "or_default (rp_type empty_request_proxy) ''hybrid'' = ''hybrid''"
    "or_else (rp_username empty_request_proxy) (PROXY_USERNAME env_h_3128) = None"
    "or_else (rp_password empty_request_proxy) (PROXY_PASSWORD env_h_3128) = None"
    by (simp_all add: empty_request_proxy_def env_h_3128_def or_default_def or_else_def truthy_str_def)
  from environment_enables_proxy [OF h1 h2 h3 h4 h5, of empty_request_proxy]
       environment_enables_proxy [OF h1 h2 h3 h4 h5, of "empty_request_proxy\<lparr>rp_enabled := Some False\<rparr>"]
  show ?thesis
    using h1 h3 h4 absent off others by simp
qed

text \<open>
  Claim C10 as stated asks only that the two variables are set. With \<open>PROXY_PORT = "abc"\<close>
  the port parses to \<open>NaN\<close>, and the validation step throws instead of returning a
  configuration.
\<close>

theorem environment_port_unparsable:
  "rp_enabled empty_request_proxy = None
   \<and> PROXY_HOST env_h_abc = Some ''h''
   \<and> PROXY_PORT env_h_abc = Some ''abc''
   \<and> getProxyConfig (Some empty_request_proxy) env_h_abc = Inl required_message"
  by code_simp

section \<open>Properties of the orchestrator\<close>

lemma shouldRetryWithProxy_Err:
  "shouldRetryWithProxy (Err d) = retry_condition d"
  by (simp add: shouldRetryWithProxy_def retry_condition_def retryReasons_def retryMessages_def
        Let_def list_ex_iff)

lemma shouldRetryWithProxy_Ok: "shouldRetryWithProxy (Ok d) = False"
  by (simp add: shouldRetryWithProxy_def)

lemma attempts_performRequest:
  "attempts (at_events (performRequest url ps pc st env p)) = [pc]"
  by (simp add: performRequest_def Let_def split: sum.splits option.splits)

lemma attempts_append: "attempts (xs @ ys) = attempts xs @ attempts ys"
  by (induction xs rule: attempts.induct) simp_all

lemma browse_hybrid:
  assumes "w_new_URL w = None"
      and "getProxyConfig (p_proxy ps) (w_env w) = Inr (Some c)"
      and "pc_type c = ''hybrid''"
  shows "browse ps w p =
     (case at_result (direct_attempt ps w p) of
        Inr result \<Rightarrow>
          if shouldRetryWithProxy result
          then (case at_result (proxy_retry ps c w p) of
                  Inr r \<Rightarrow>
                    \<lparr>br_result = r, br_pool = at_pool (proxy_retry ps c w p),
                     br_events = at_events (direct_attempt ps w p) @ at_events (proxy_retry ps c w p)\<rparr>
                | Inl _ \<Rightarrow>
                    returned (second_retry ps c w p) (p_url ps) w
                      (at_events (direct_attempt ps w p) @ at_events (proxy_retry ps c w p)))
          else \<lparr>br_result = result, br_pool = at_pool (direct_attempt ps w p),
                br_events = at_events (direct_attempt ps w p)\<rparr>
      | Inl _ \<Rightarrow> returned (proxy_retry ps c w p) (p_url ps) w (at_events (direct_attempt ps w p)))"
  using assms
  by (auto simp: browse_def Let_def direct_attempt_def proxy_retry_def second_retry_def status_def
        shouldRetryWithProxy_Ok split: sum.splits fetch_result.splits)

text \<open>
  Hybrid mode on every path: a retryable error of the direct attempt is followed by one
  proxy-bound attempt whose result, when it returns one, is final; when that attempt
  throws, one more proxy-bound attempt follows; any other result of the direct attempt is
  returned unchanged after that single attempt.
\<close>

lemma hybrid_retry_policy:
  assumes "w_new_URL w = None"
      and "getProxyConfig (p_proxy ps) (w_env w) = Inr (Some c)"
      and "pc_type c = ''hybrid''"
  shows
    "(\<forall>d r. at_result (direct_attempt ps w p) = Inr (Err d) \<and> retry_condition d
            \<and> at_result (proxy_retry ps c w p) = Inr r
        \<longrightarrow> attempts (br_events (browse ps w p)) = [None, Some c]
            \<and> br_result (browse ps w p) = r)
     \<and> (\<forall>d m. at_result (direct_attempt ps w p) = Inr (Err d) \<and> retry_condition d
            \<and> at_result (proxy_retry ps c w p) = Inl m
        \<longrightarrow> attempts (br_events (browse ps w p)) = [None, Some c, Some c]
            \<and> br_result (browse ps w p)
                = (case at_result (second_retry ps c w p) of
                     Inr r \<Rightarrow> r
                   | Inl m' \<Rightarrow> browse_catch m' (p_url ps) w))
     \<and> (\<forall>r. at_result (direct_attempt ps w p) = Inr r
              \<and> \<not> (\<exists>d. r = Err d \<and> retry_condition d)
        \<longrightarrow> attempts (br_events (browse ps w p)) = [None]
            \<and> br_result (browse ps w p) = r)
     \<and> length (attempts (br_events (browse ps w p))) \<le> 3"
proof -
  note unfolded = browse_hybrid [OF assms, of p]
  have direct_events: "attempts (at_events (direct_attempt ps w p)) = [None]"
    by (simp add: direct_attempt_def attempts_performRequest)
  have retry_events: "attempts (at_events (proxy_retry ps c w p)) = [Some c]"
    by (simp add: proxy_retry_def attempts_performRequest)
  have again_events: "attempts (at_events (second_retry ps c w p)) = [Some c]"
    by (simp add: second_retry_def attempts_performRequest)
  note events = attempts_append direct_events retry_events again_events
  have first: "attempts (br_events (browse ps w p)) = [None, Some c]
      \<and> br_result (browse ps w p) = r"
    if "at_result (direct_attempt ps w p) = Inr (Err d)" and "retry_condition d"
      and "at_result (proxy_retry ps c w p) = Inr r" for d r
    using that by (simp add: unfolded shouldRetryWithProxy_Err events)
  have thrown: "attempts (br_events (browse ps w p)) = [None, Some c, Some c]
      \<and> br_result (browse ps w p)
          = (case at_result (second_retry ps c w p) of
               Inr r \<Rightarrow> r | Inl m' \<Rightarrow> browse_catch m' (p_url ps) w)"
    if "at_result (direct_attempt ps w p) = Inr (Err d)" and "retry_condition d"
      and "at_result (proxy_retry ps c w p) = Inl m" for d m
    using that by (simp add: unfolded shouldRetryWithProxy_Err returned_def events)
  have second: "attempts (br_events (browse ps w p)) = [None] \<and> br_result (browse ps w p) = r"
    if "at_result (direct_attempt ps w p) = Inr r"
      and "\<not> (\<exists>d. r = Err d \<and> retry_condition d)" for r
    using that direct_events
    by (cases r) (simp_all add: unfolded shouldRetryWithProxy_Err shouldRetryWithProxy_Ok)
  have third: "length (attempts (br_events (browse ps w p))) \<le> 3"
    by (simp add: unfolded returned_def events split: sum.splits)
  from first thrown second third show ?thesis by blast
qed

text \<open>
  Claim C4 says that in hybrid mode a retryable error of the direct attempt is followed by
  exactly one proxy-bound retry whose outcome is final, and that no path makes more than
  one retry. The retry on line 62 is awaited inside the inner \<open>try\<close>, so when it throws the
  \<open>catch\<close> block meant for the direct attempt (lines 66 to 69) starts a second retry. With
  a direct attempt that times out and a retry in which \<open>page.goto\<close> rejects with a value
  without message, \<open>browse\<close> makes three attempts and returns the result of the third.
\<close>

theorem throwing_retry_is_retried_again:
  "getProxyConfig (p_proxy (sample_params (Some hybrid_h_8080))) (w_env retry_throws_world)
     = Inr (Some hybrid_config)
   \<and> at_result (direct_attempt (sample_params (Some hybrid_h_8080)) retry_throws_world browserPool)
     = Inr (Err (timeout_error 5 ''none''))
   \<and> shouldRetryWithProxy (Err (timeout_error 5 ''none''))
   \<and> at_result (proxy_retry (sample_params (Some hybrid_h_8080)) hybrid_config retry_throws_world
        browserPool)
     = Inl toLowerCase_of_undefined
   \<and> attempts (br_events (browse (sample_params (Some hybrid_h_8080)) retry_throws_world browserPool))
     = [None, Some hybrid_config, Some hybrid_config]
   \<and> br_result (browse (sample_params (Some hybrid_h_8080)) retry_throws_world browserPool)
     = Err (timeout_error 15 ''h:8080'')"
  by code_simp

text \<open>
  Claim C1 says that in hybrid mode a direct attempt whose page the block detector judges
  blocked raises the blocked condition and is retried through the proxy. The block check
  of \<open>performRequest\<close> runs only when a proxy configuration of type \<open>hybrid\<close> is passed, and
  the direct attempt passes \<open>null\<close>: with the direct navigation answering HTTP 403 (which
  \<open>isPageBlocked\<close> judges blocked), \<open>browse\<close> returns the direct attempt's \<open>ok\<close> result with
  \<open>proxy_used = "none"\<close> after a single attempt.
\<close>

theorem hybrid_direct_403_is_returned:
  "isPageBlocked (Some \<lparr>resp_status = 403, resp_url = ''https://x/''\<rparr>)
      (pe_check_title (w_first blocked_world)) (pe_check_content (w_first blocked_world))
   \<and> pe_goto (w_first blocked_world) = Inr (Some \<lparr>resp_status = 403, resp_url = ''https://x/''\<rparr>)
   \<and> getProxyConfig (Some hybrid_h_8080) no_environment = Inr (Some hybrid_config)
   \<and> status (br_result (browse (sample_params (Some hybrid_h_8080)) blocked_world browserPool)) = ''ok''
   \<and> proxy_used (br_result (browse (sample_params (Some hybrid_h_8080)) blocked_world browserPool))
       = Some ''none''
   \<and> attempts (br_events (browse (sample_params (Some hybrid_h_8080)) blocked_world browserPool))
       = [None]"
  by code_simp

text \<open>Every result that an attempt returns, \<open>ok\<close> or \<open>error\<close>, carries \<open>proxy_used\<close>: the proxy's
  \<open>host:port\<close> for a proxy-bound attempt and \<open>none\<close> otherwise.\<close>

lemma attempt_catch_proxy_used:
  "attempt_catch e url pc st env = Inr r \<Longrightarrow>
   proxy_used r = Some (proxyUsed_of pc) \<and> status r = ''error''"
  by (auto simp: attempt_catch_def proxy_used_def status_def split: option.splits)

lemma navigate_proxy_used:
  "navigate url ps pc st env = Inr r \<Longrightarrow> proxy_used r = Some (proxyUsed_of pc)"
  by (auto simp: navigate_def proxy_used_def split: sum.splits if_splits prod.splits)

lemma performRequest_proxy_used:
  "at_result (performRequest url ps pc st env p) = Inr r \<Longrightarrow>
   proxy_used r = Some (proxyUsed_of pc)"
  by (auto simp: performRequest_def Let_def
           dest: attempt_catch_proxy_used navigate_proxy_used
           split: sum.splits option.splits)

text \<open>
  Claim C3 says that every result carries \<open>proxy_used\<close>. The error results assembled
  outside an attempt do not: neither the one for a URL that does not parse nor the one
  for an unresolvable proxy configuration has the property.
\<close>

theorem early_errors_lack_proxy_used:
  "br_result (browse (sample_params None) invalid_url_world browserPool)
     = Err \<lparr>err_exec = 2 / 1000, err_reason = ''invalid_url'', err_message = ''Invalid URL'',
            err_url = ''https://x/'', err_timestamp = ''2025-01-31T11:53:42.337Z'',
            err_proxy_used = None\<rparr>
   \<and> br_result (browse (sample_params (Some static_without_host)) plain_world browserPool)
     = Err \<lparr>err_exec = 2 / 1000, err_reason = ''proxy_error'', err_message = missing_message,
            err_url = ''https://x/'', err_timestamp = ''2025-01-31T11:53:42.337Z'',
            err_proxy_used = None\<rparr>"
  by code_simp

end
